theory Spec2Isabelle
  imports Complex_Main
begin

section \<open>Conventions of the embedding\<close>

text \<open>
  The models of \<^verbatim>\<open>src/models/Tweet.js\<close>, \<^verbatim>\<open>src/models/Subscription.js\<close> and the
  \<^verbatim>\<open>PushRecord\<close> model are Mongoose documents with instance methods. A document is a
  \<^theory_text>\<open>record\<close>, a method that assigns to \<^verbatim>\<open>this\<close> takes the document and
  returns the document after the body has run, and what a method reads from the
  environment is a parameter: \<^verbatim>\<open>Date.now()\<close> and \<^verbatim>\<open>new Date()\<close> are the parameter
  \<open>now\<close>, \<^verbatim>\<open>Math.random()\<close> is the parameter \<open>rnd\<close>, \<^verbatim>\<open>new Date().getHours()\<close> is
  the parameter \<open>currentHour\<close>.

  A JavaScript \<^verbatim>\<open>Number\<close> is a \<^typ>\<open>real\<close>: the rounding of IEEE doubles, \<^verbatim>\<open>NaN\<close>
  and the infinities are outside the model, so a property that the rounding of
  doubles decides (the exact value of a rounded product, a strict bound on a rounded
  sum) is not a property of this model. The time \<^verbatim>\<open>new Date()\<close> and a stored
  \<^verbatim>\<open>Date\<close> are the time value \<^verbatim>\<open>getTime()\<close>, in milliseconds, also a \<^typ>\<open>real\<close>.
  The final \<^verbatim>\<open>this.save()\<close> of a method writes the document to the database and
  changes nothing in it, so it is left out. Fields of a schema that no method below
  reads or writes are left out of the records.

  A string that the code lower-cases and searches is the list of its UTF-16 code
  units, each a natural number; \<open>code_units\<close> gives the code units of a string of
  ASCII characters. A string that the code only stores or compares is a
  \<^typ>\<open>string\<close>.
\<close>

type_synonym number = real
type_synonym date = real
type_synonym js_string = "nat list"

definition code_units :: "string \<Rightarrow> js_string" where
  "code_units s = map of_char s"

section \<open>Tweet\<close>

record author =
  verified :: bool
  followers_count :: number

record public_metrics =
  retweet_count :: number
  like_count :: number
  reply_count :: number
  quote_count :: number

record tweet_metadata =
  created_at :: date
  lang :: string

record attachments =
  media_keys :: "string list option"

record entities =
  urls :: "string list option"

record tweet =
  tweet_text :: js_string
  tweet_author :: author
  tweet_public_metrics :: public_metrics
  tweet_metadata :: tweet_metadata
  tweet_attachments :: "attachments option"
  tweet_entities :: "entities option"
  hotness_score :: number

text \<open>\<^verbatim>\<open>Math.round\<close> rounds to the nearest integer, a tie towards plus infinity.\<close>

definition Math_round :: "real \<Rightarrow> real" where
  "Math_round x = of_int \<lfloor>x + 1 / 2\<rfloor>"

text \<open>
  \<^verbatim>\<open>calculateHotnessScore\<close>: the value returned and the document with the score
  stored in \<^verbatim>\<open>hotness_score\<close>.
\<close>

definition calculateHotnessScore :: "date \<Rightarrow> tweet \<Rightarrow> number \<times> tweet" where
  "calculateHotnessScore now t =
    (let metrics = tweet_public_metrics t;
         ageInHours = (now - created_at (tweet_metadata t)) / (1000 * 60 * 60);
         baseScore = like_count metrics * 1 + retweet_count metrics * 2
                     + reply_count metrics * 1.5 + quote_count metrics * 1.8;
         authorWeight = min (followers_count (tweet_author t) / 10000) 5;
         baseScore = baseScore * (1 + authorWeight * 0.1);
         baseScore = (if verified (tweet_author t) then baseScore * 1.2 else baseScore);
         timeDecay = exp (- ageInHours / 24);
         score = Math_round (baseScore * timeDecay)
     in (score, t\<lparr>hotness_score := score\<rparr>))"

section \<open>Subscription\<close>

datatype requirement = Any | Required | Excluded

record filters =
  languages :: "string list"
  minLikes :: number
  minRetweets :: number
  minReplies :: number
  hasMedia :: requirement
  hasLinks :: requirement
  excludeKeywords :: "js_string list"

record activeHours =
  activeHours_start :: number
  activeHours_end :: number

record pushSettings =
  pushSettings_activeHours :: activeHours

record subscription =
  sub_keywords :: "js_string list"
  sub_filters :: filters
  sub_pushSettings :: pushSettings

text \<open>
  \<^verbatim>\<open>s.includes(k)\<close> holds when the code units of \<open>k\<close> start at some position of
  \<open>s\<close>; \<^verbatim>\<open>xs.some(p)\<close> is \<^const>\<open>list_ex\<close>.
\<close>

fun startsWith :: "js_string \<Rightarrow> js_string \<Rightarrow> bool" where
  "startsWith s [] = True"
| "startsWith [] (k # ks) = False"
| "startsWith (c # cs) (k # ks) = (c = k \<and> startsWith cs ks)"

fun str_includes :: "js_string \<Rightarrow> js_string \<Rightarrow> bool" where
  "str_includes [] k = (k = [])"
| "str_includes (c # cs) k = (startsWith (c # cs) k \<or> str_includes cs k)"

text \<open>
  \<^verbatim>\<open>String.prototype.toLowerCase\<close> is a built-in of the language; its table of case
  mappings is not part of the repository. \<^verbatim>\<open>matchesKeywords\<close> takes it as the
  parameter \<open>toLowerCase\<close> and calls it where the code does.
\<close>

definition matchesKeywords ::
  "(js_string \<Rightarrow> js_string) \<Rightarrow> subscription \<Rightarrow> js_string \<Rightarrow> bool" where
  "matchesKeywords toLowerCase s text_arg =
    (let lowerText = toLowerCase text_arg;
         hasKeyword = list_ex (\<lambda>keyword. str_includes lowerText (toLowerCase keyword))
                        (sub_keywords s)
     in if \<not> hasKeyword then False
        else
          (let hasExcludeKeyword =
                 list_ex (\<lambda>keyword. str_includes lowerText (toLowerCase keyword))
                   (excludeKeywords (sub_filters s))
           in \<not> hasExcludeKeyword))"

text \<open>
  \<^verbatim>\<open>tweet.attachments && tweet.attachments.media_keys && ....length > 0\<close>: a missing
  object or array makes the conjunction falsy.
\<close>

definition tweet_hasMedia :: "tweet \<Rightarrow> bool" where
  "tweet_hasMedia t =
    (case tweet_attachments t of
       None \<Rightarrow> False
     | Some a \<Rightarrow> (case media_keys a of None \<Rightarrow> False | Some ks \<Rightarrow> length ks > 0))"

definition tweet_hasLinks :: "tweet \<Rightarrow> bool" where
  "tweet_hasLinks t =
    (case tweet_entities t of
       None \<Rightarrow> False
     | Some e \<Rightarrow> (case urls e of None \<Rightarrow> False | Some us \<Rightarrow> length us > 0))"

definition matchesFilters :: "subscription \<Rightarrow> tweet \<Rightarrow> bool" where
  "matchesFilters s t =
    (let filters = sub_filters s in
     if like_count (tweet_public_metrics t) < minLikes filters then False
     else if retweet_count (tweet_public_metrics t) < minRetweets filters then False
     else if reply_count (tweet_public_metrics t) < minReplies filters then False
     else
       (let hasMedia_t = tweet_hasMedia t in
        if hasMedia filters = Required \<and> \<not> hasMedia_t then False
        else if hasMedia filters = Excluded \<and> hasMedia_t then False
        else
          (let hasLinks_t = tweet_hasLinks t in
           if hasLinks filters = Required \<and> \<not> hasLinks_t then False
           else if hasLinks filters = Excluded \<and> hasLinks_t then False
           else True)))"

text \<open>\<open>currentHour\<close> is what \<^verbatim>\<open>new Date().getHours()\<close> returned, a whole hour from 0 to 23.\<close>

definition isInActiveHours :: "nat \<Rightarrow> subscription \<Rightarrow> bool" where
  "isInActiveHours currentHour s =
    (let start = activeHours_start (pushSettings_activeHours (sub_pushSettings s));
         end_hour = activeHours_end (pushSettings_activeHours (sub_pushSettings s))
     in if start \<le> end_hour
        then real currentHour \<ge> start \<and> real currentHour \<le> end_hour
        else real currentHour \<ge> start \<or> real currentHour \<le> end_hour)"

section \<open>PushRecord\<close>

datatype push_status = Pending | Sending | Success | Failed | Cancelled

text \<open>
  A value of the schema type \<^verbatim>\<open>Mixed\<close> is kept as a string; \<open>None\<close> is \<^verbatim>\<open>null\<close>, an
  unset field or, for the test \<^verbatim>\<open>if (rawResponse)\<close>, any other falsy value.
\<close>

type_synonym mixed = string

record pushConfig =
  retryCount :: number
  maxRetries :: number
  retryDelay :: number

record push_result =
  messageId :: "string option"
  deliveryTime :: "date option"
  responseTime :: "number option"
  errorCode :: "string option"
  errorMessage :: "string option"
  rawResponse :: "mixed option"

record interaction =
  isRead :: bool
  readAt :: "date option"
  isClicked :: bool
  clickedAt :: "date option"
  clickCount :: number
  feedback :: "string option"
  feedbackAt :: "date option"

record timing =
  scheduledAt :: "date option"
  startedAt :: "date option"
  completedAt :: "date option"
  duration :: "number option"
  queueTime :: "number option"

record retryEntry =
  attempt :: number
  timestamp :: date
  error :: string
  retry_duration :: number

record pushRecord =
  status :: push_status
  pr_pushConfig :: pushConfig
  pr_result :: push_result
  pr_interaction :: interaction
  pr_timing :: timing
  retryHistory :: "retryEntry list"

text \<open>A new document with the defaults of the schema.\<close>

definition newPushRecord :: pushRecord where
  "newPushRecord =
    \<lparr>status = Pending,
     pr_pushConfig = \<lparr>retryCount = 0, maxRetries = 3, retryDelay = 300\<rparr>,
     pr_result = \<lparr>messageId = None, deliveryTime = None, responseTime = None,
                  errorCode = None, errorMessage = None, rawResponse = None\<rparr>,
     pr_interaction = \<lparr>isRead = False, readAt = None, isClicked = False, clickedAt = None,
                       clickCount = 0, feedback = None, feedbackAt = None\<rparr>,
     pr_timing = \<lparr>scheduledAt = None, startedAt = None, completedAt = None,
                  duration = None, queueTime = None\<rparr>,
     retryHistory = []\<rparr>"

definition markAsStarted :: "date \<Rightarrow> pushRecord \<Rightarrow> pushRecord" where
  "markAsStarted now r =
    (let r = r\<lparr>status := Sending\<rparr>;
         r = r\<lparr>pr_timing := (pr_timing r)\<lparr>startedAt := Some now\<rparr>\<rparr>
     in case scheduledAt (pr_timing r) of
          None \<Rightarrow> r
        | Some scheduled \<Rightarrow>
            r\<lparr>pr_timing := (pr_timing r)\<lparr>queueTime := Some (now - scheduled)\<rparr>\<rparr>)"

definition markAsSuccess ::
  "date \<Rightarrow> string \<Rightarrow> number \<Rightarrow> mixed option \<Rightarrow> pushRecord \<Rightarrow> pushRecord" where
  "markAsSuccess now messageId_arg responseTime_arg rawResponse_arg r =
    (let r = r\<lparr>status := Success\<rparr>;
         r = r\<lparr>pr_timing := (pr_timing r)\<lparr>completedAt := Some now\<rparr>\<rparr>;
         r = (case startedAt (pr_timing r) of
                None \<Rightarrow> r
              | Some started \<Rightarrow>
                  r\<lparr>pr_timing := (pr_timing r)\<lparr>duration := Some (now - started)\<rparr>\<rparr>);
         r = r\<lparr>pr_result := (pr_result r)\<lparr>messageId := Some messageId_arg\<rparr>\<rparr>;
         r = r\<lparr>pr_result := (pr_result r)\<lparr>deliveryTime := completedAt (pr_timing r)\<rparr>\<rparr>;
         r = r\<lparr>pr_result := (pr_result r)\<lparr>responseTime := Some responseTime_arg\<rparr>\<rparr>
     in case rawResponse_arg of
          None \<Rightarrow> r
        | Some raw \<Rightarrow> r\<lparr>pr_result := (pr_result r)\<lparr>rawResponse := Some raw\<rparr>\<rparr>)"

definition markAsFailed ::
  "date \<Rightarrow> string \<Rightarrow> string \<Rightarrow> mixed option \<Rightarrow> pushRecord \<Rightarrow> pushRecord" where
  "markAsFailed now errorCode_arg errorMessage_arg rawResponse_arg r =
    (let r = r\<lparr>status := Failed\<rparr>;
         r = r\<lparr>pr_timing := (pr_timing r)\<lparr>completedAt := Some now\<rparr>\<rparr>;
         r = (case startedAt (pr_timing r) of
                None \<Rightarrow> r
              | Some started \<Rightarrow>
                  r\<lparr>pr_timing := (pr_timing r)\<lparr>duration := Some (now - started)\<rparr>\<rparr>);
         r = r\<lparr>pr_result := (pr_result r)\<lparr>errorCode := Some errorCode_arg\<rparr>\<rparr>;
         r = r\<lparr>pr_result := (pr_result r)\<lparr>errorMessage := Some errorMessage_arg\<rparr>\<rparr>
     in case rawResponse_arg of
          None \<Rightarrow> r
        | Some raw \<Rightarrow> r\<lparr>pr_result := (pr_result r)\<lparr>rawResponse := Some raw\<rparr>\<rparr>)"

definition addRetryAttempt :: "date \<Rightarrow> string \<Rightarrow> number \<Rightarrow> pushRecord \<Rightarrow> pushRecord" where
  "addRetryAttempt now error_arg duration_arg r =
    (let r = r\<lparr>pr_pushConfig :=
                  (pr_pushConfig r)\<lparr>retryCount := retryCount (pr_pushConfig r) + 1\<rparr>\<rparr>
     in r\<lparr>retryHistory :=
            retryHistory r @
              [\<lparr>attempt = retryCount (pr_pushConfig r), timestamp = now,
                error = error_arg, retry_duration = duration_arg\<rparr>]\<rparr>)"

definition canRetry :: "pushRecord \<Rightarrow> bool" where
  "canRetry r =
    (retryCount (pr_pushConfig r) < maxRetries (pr_pushConfig r) \<and> status r = Failed)"

text \<open>
  \<^verbatim>\<open>new Date(v)\<close> with a number \<open>v\<close>: the time value is \<open>v\<close> cut towards zero to a
  whole number of milliseconds; beyond 8.64e15 milliseconds on either side of the
  epoch the date is invalid.
\<close>

datatype date_object = Date_at date | Invalid_Date

definition Date_new :: "real \<Rightarrow> date_object" where
  "Date_new v =
    (if \<bar>v\<bar> \<le> 8640000000000000
     then Date_at (of_int (if 0 \<le> v then \<lfloor>v\<rfloor> else \<lceil>v\<rceil>))
     else Invalid_Date)"

text \<open>
  \<^verbatim>\<open>getNextRetryTime\<close>: \<open>None\<close> is \<^verbatim>\<open>null\<close>; \<open>rnd\<close> is the value of \<^verbatim>\<open>Math.random()\<close>,
  which lies in \<open>[0, 1)\<close>; \<^verbatim>\<open>Math.pow(2, x)\<close> is \<open>2 powr x\<close>.
\<close>

definition getNextRetryTime :: "date \<Rightarrow> real \<Rightarrow> pushRecord \<Rightarrow> date_object option" where
  "getNextRetryTime now rnd r =
    (if \<not> canRetry r then None
     else
       (let baseDelay = retryDelay (pr_pushConfig r) * 1000;
            exponentialDelay = baseDelay * 2 powr (retryCount (pr_pushConfig r) - 1);
            jitter = rnd * 1000
        in Some (Date_new (now + exponentialDelay + jitter))))"

text \<open>
  \<^verbatim>\<open>updateInteraction(type, data)\<close>: \<open>data_feedback\<close> is \<^verbatim>\<open>data.feedback\<close>, \<open>None\<close> when
  the property is missing; a \<open>type_arg\<close> that no \<^verbatim>\<open>case\<close> of the switch names changes nothing.
\<close>

definition updateInteraction ::
  "date \<Rightarrow> string \<Rightarrow> string option \<Rightarrow> pushRecord \<Rightarrow> pushRecord" where
  "updateInteraction now type_arg data_feedback r =
    (if type_arg = ''read'' then
       r\<lparr>pr_interaction := (pr_interaction r)\<lparr>isRead := True, readAt := Some now\<rparr>\<rparr>
     else if type_arg = ''click'' then
       r\<lparr>pr_interaction :=
           (pr_interaction r)\<lparr>isClicked := True, clickedAt := Some now,
                                clickCount := clickCount (pr_interaction r) + 1\<rparr>\<rparr>
     else if type_arg = ''feedback'' then
       r\<lparr>pr_interaction :=
           (pr_interaction r)\<lparr>feedback := data_feedback, feedbackAt := Some now\<rparr>\<rparr>
     else r)"

subsection \<open>Sequences of lifecycle calls\<close>

datatype lifecycle_call =
    MarkAsStarted date
  | MarkAsSuccess date string number "mixed option"
  | MarkAsFailed date string string "mixed option"
  | AddRetryAttempt date string number
  | UpdateInteraction date string "string option"

fun apply_call :: "lifecycle_call \<Rightarrow> pushRecord \<Rightarrow> pushRecord" where
  "apply_call (MarkAsStarted now) r = markAsStarted now r"
| "apply_call (MarkAsSuccess now m rt raw) r = markAsSuccess now m rt raw r"
| "apply_call (MarkAsFailed now c m raw) r = markAsFailed now c m raw r"
| "apply_call (AddRetryAttempt now e d) r = addRetryAttempt now e d r"
| "apply_call (UpdateInteraction now ty fb) r = updateInteraction now ty fb r"

definition run_calls :: "lifecycle_call list \<Rightarrow> pushRecord \<Rightarrow> pushRecord" where
  "run_calls cs r = fold apply_call cs r"

section \<open>The notions of the specification\<close>

subsection \<open>The score formula\<close>

definition ageInHours :: "date \<Rightarrow> tweet \<Rightarrow> real" where
  "ageInHours now t = (now - created_at (tweet_metadata t)) / (1000 * 60 * 60)"

definition base :: "tweet \<Rightarrow> real" where
  "base t = 1 * like_count (tweet_public_metrics t)
            + 2 * retweet_count (tweet_public_metrics t)
            + 1.5 * reply_count (tweet_public_metrics t)
            + 1.8 * quote_count (tweet_public_metrics t)"

definition influence :: "tweet \<Rightarrow> real" where
  "influence t = 1 + 0.1 * min (followers_count (tweet_author t) / 10000) 5"

definition verifiedMultiplier :: "tweet \<Rightarrow> real" where
  "verifiedMultiplier t = (if verified (tweet_author t) then 1.2 else 1)"

definition decay :: "real \<Rightarrow> real" where
  "decay ageHours = exp (- ageHours / 24)"

text \<open>Engagement counters and the follower count are counts: none is negative.\<close>

definition nonneg_counts :: "tweet \<Rightarrow> bool" where
  "nonneg_counts t =
    (0 \<le> like_count (tweet_public_metrics t) \<and> 0 \<le> retweet_count (tweet_public_metrics t)
     \<and> 0 \<le> reply_count (tweet_public_metrics t) \<and> 0 \<le> quote_count (tweet_public_metrics t)
     \<and> 0 \<le> followers_count (tweet_author t))"

subsection \<open>Substrings\<close>

definition contains :: "js_string \<Rightarrow> js_string \<Rightarrow> bool" where
  "contains s k = (\<exists>ps ss. s = ps @ k @ ss)"

subsection \<open>Lower case\<close>

text \<open>
  What lower-casing does to ASCII: the letters A to Z (65 to 90) become a to z
  (97 to 122) and every other ASCII code unit stays. A function \<open>f\<close> on strings
  lowers ASCII when it does this to every string of code units below 128;
  \<^verbatim>\<open>toLowerCase\<close> does.
\<close>

definition ascii_lower :: "nat \<Rightarrow> nat" where
  "ascii_lower c = (if 65 \<le> c \<and> c \<le> 90 then c + 32 else c)"

definition lowers_ascii :: "(js_string \<Rightarrow> js_string) \<Rightarrow> bool" where
  "lowers_ascii f = (\<forall>s. list_all (\<lambda>c. c < 128) s \<longrightarrow> f s = map ascii_lower s)"

subsection \<open>Retry bookkeeping\<close>

definition retryInv :: "pushRecord \<Rightarrow> bool" where
  "retryInv r = (retryCount (pr_pushConfig r) = real (length (retryHistory r)))"

text \<open>One cycle of a failed delivery: \<^verbatim>\<open>markAsFailed\<close>, then \<^verbatim>\<open>addRetryAttempt\<close>.\<close>

definition retry_cycle ::
  "date \<Rightarrow> string \<Rightarrow> string \<Rightarrow> mixed option \<Rightarrow> date \<Rightarrow> string \<Rightarrow> number
    \<Rightarrow> lifecycle_call list" where
  "retry_cycle t c m raw t' e d = [MarkAsFailed t c m raw, AddRetryAttempt t' e d]"

section \<open>Example documents\<close>

text \<open>
  A tweet by an unverified author without followers, written in English, with the
  given number of likes and creation time and no other engagement.
\<close>

definition ex_tweet :: "number \<Rightarrow> date \<Rightarrow> tweet" where
  "ex_tweet likes created =
    \<lparr>tweet_text = code_units ''New AI breakthrough'',
     tweet_author = \<lparr>verified = False, followers_count = 0\<rparr>,
     tweet_public_metrics = \<lparr>retweet_count = 0, like_count = likes, reply_count = 0,
                             quote_count = 0\<rparr>,
     tweet_metadata = \<lparr>created_at = created, lang = ''en''\<rparr>,
     tweet_attachments = Some \<lparr>media_keys = Some []\<rparr>,
     tweet_entities = Some \<lparr>urls = Some []\<rparr>,
     hotness_score = 0\<rparr>"

text \<open>
  A subscription to the keyword AI that excludes spam, asks for ten likes, allows
  Chinese only and is active between the two given hours.
\<close>

definition ex_subscription :: "number \<Rightarrow> number \<Rightarrow> subscription" where
  "ex_subscription start_hour end_hour =
    \<lparr>sub_keywords = [code_units ''AI''],
     sub_filters = \<lparr>languages = [''zh''], minLikes = 10, minRetweets = 0, minReplies = 0,
                    hasMedia = Any, hasLinks = Any, excludeKeywords = [code_units ''spam'']\<rparr>,
     sub_pushSettings = \<lparr>pushSettings_activeHours =
                           \<lparr>activeHours_start = start_hour, activeHours_end = end_hour\<rparr>\<rparr>\<rparr>"

text \<open>
  A lower-casing function for the examples: it lowers A to Z and the capital letters
  of Latin-1 (192 to 222 without the multiplication sign 215), as \<^verbatim>\<open>toLowerCase\<close>
  does, and leaves every other code unit as it is.
\<close>

definition ex_lower_unit :: "nat \<Rightarrow> nat" where
  "ex_lower_unit c =
    (if (65 \<le> c \<and> c \<le> 90) \<or> (192 \<le> c \<and> c \<le> 222 \<and> c \<noteq> 215) then c + 32 else c)"

definition ex_toLowerCase :: "js_string \<Rightarrow> js_string" where
  "ex_toLowerCase s = map ex_lower_unit s"

section \<open>Auxiliary facts\<close>

subsection \<open>Scoring\<close>

lemma hotness_value:
  "fst (calculateHotnessScore now t) =
     Math_round (base t * influence t * verifiedMultiplier t * decay (ageInHours now t))"
  by (simp add: calculateHotnessScore_def Let_def base_def influence_def
      verifiedMultiplier_def decay_def ageInHours_def mult.commute)

lemma weight_nonneg:
  assumes "nonneg_counts t"
  shows "0 \<le> base t * influence t * verifiedMultiplier t"
proof -
  have b: "0 \<le> base t" using assms by (simp add: nonneg_counts_def base_def)
  have i: "0 \<le> influence t" using assms by (simp add: nonneg_counts_def influence_def min_def)
  have v: "0 \<le> verifiedMultiplier t" by (simp add: verifiedMultiplier_def)
  from b i v show ?thesis by simp
qed

lemma Math_round_mono: "x \<le> y \<Longrightarrow> Math_round x \<le> Math_round y"
  by (simp add: Math_round_def floor_mono)

lemma Math_round_nonneg: "0 \<le> x \<Longrightarrow> 0 \<le> Math_round x"
  by (simp add: Math_round_def)

lemma decay_antimono: "a \<le> b \<Longrightarrow> decay b \<le> decay a"
  by (simp add: decay_def)

lemma ageInHours_mono: "now1 \<le> now2 \<Longrightarrow> ageInHours now1 t \<le> ageInHours now2 t"
  by (simp add: ageInHours_def divide_right_mono)

lemma score_antimono:
  assumes "nonneg_counts t" and "now1 \<le> now2"
  shows "fst (calculateHotnessScore now2 t) \<le> fst (calculateHotnessScore now1 t)"
proof -
  from assms(2) have "decay (ageInHours now2 t) \<le> decay (ageInHours now1 t)"
    by (intro decay_antimono ageInHours_mono)
  with weight_nonneg [OF assms(1)]
  have "base t * influence t * verifiedMultiplier t * decay (ageInHours now2 t)
        \<le> base t * influence t * verifiedMultiplier t * decay (ageInHours now1 t)"
    by (rule mult_left_mono [rotated])
  then show ?thesis unfolding hotness_value by (rule Math_round_mono)
qed

lemma ex_tweet_score:
  "fst (calculateHotnessScore now (ex_tweet likes created)) =
     Math_round (likes * exp (- ((now - created) / 3600000) / 24))"
  by (simp add: calculateHotnessScore_def Let_def ex_tweet_def)

subsection \<open>Substring search\<close>

lemma startsWith_iff: "startsWith s k \<longleftrightarrow> (\<exists>ss. s = k @ ss)"
  by (induction s k rule: startsWith.induct) auto

lemma str_includes_iff: "str_includes s k \<longleftrightarrow> contains s k"
proof (induction s)
  case Nil
  then show ?case by (auto simp: contains_def)
next
  case (Cons c cs)
  have "contains (c # cs) k \<longleftrightarrow> (\<exists>ss. c # cs = k @ ss) \<or> contains cs k"
  proof
    assume "contains (c # cs) k"
    then obtain ps ss where e: "c # cs = ps @ k @ ss" unfolding contains_def by blast
    show "(\<exists>ss. c # cs = k @ ss) \<or> contains cs k"
    proof (cases ps)
      case Nil
      with e show ?thesis by auto
    next
      case (Cons p ps')
      with e have "cs = ps' @ k @ ss" by simp
      then show ?thesis unfolding contains_def by blast
    qed
  next
    assume "(\<exists>ss. c # cs = k @ ss) \<or> contains cs k"
    then show "contains (c # cs) k"
    proof
      assume "\<exists>ss. c # cs = k @ ss"
      then obtain ss where "c # cs = [] @ k @ ss" by auto
      then show ?thesis unfolding contains_def by blast
    next
      assume "contains cs k"
      then obtain ps ss where "c # cs = (c # ps) @ k @ ss" unfolding contains_def by auto
      then show ?thesis unfolding contains_def by blast
    qed
  qed
  with Cons show ?case by (simp add: startsWith_iff)
qed

subsection \<open>Lower-casing ASCII strings\<close>

lemma lowers_ascii_ex_toLowerCase: "lowers_ascii ex_toLowerCase"
  unfolding lowers_ascii_def ex_toLowerCase_def
proof (intro allI impI)
  fix s :: js_string
  assume "list_all (\<lambda>c. c < 128) s"
  then show "map ex_lower_unit s = map ascii_lower s"
    by (induction s) (auto simp: ex_lower_unit_def ascii_lower_def)
qed

lemma lowers_asciiD:
  "lowers_ascii f \<Longrightarrow> list_all (\<lambda>c. c < 128) s \<Longrightarrow> map ascii_lower s = t \<Longrightarrow> f s = t"
  by (simp add: lowers_ascii_def)

lemma lower_AI: "lowers_ascii f \<Longrightarrow> f (code_units ''AI'') = code_units ''ai''"
  by (erule lowers_asciiD; code_simp)

lemma lower_ai: "lowers_ascii f \<Longrightarrow> f (code_units ''ai'') = code_units ''ai''"
  by (erule lowers_asciiD; code_simp)

lemma lower_spam: "lowers_ascii f \<Longrightarrow> f (code_units ''spam'') = code_units ''spam''"
  by (erule lowers_asciiD; code_simp)

lemma lower_SPAM: "lowers_ascii f \<Longrightarrow> f (code_units ''SPAM'') = code_units ''spam''"
  by (erule lowers_asciiD; code_simp)

lemma lower_New_AI_breakthrough:
  "lowers_ascii f \<Longrightarrow>
    f (code_units ''New AI breakthrough'') = code_units ''new ai breakthrough''"
  by (erule lowers_asciiD; code_simp)

lemma lower_new_ai_breakthrough:
  "lowers_ascii f \<Longrightarrow>
    f (code_units ''new ai breakthrough'') = code_units ''new ai breakthrough''"
  by (erule lowers_asciiD; code_simp)

lemma lower_AI_spam_deal:
  "lowers_ascii f \<Longrightarrow> f (code_units ''AI spam deal'') = code_units ''ai spam deal''"
  by (erule lowers_asciiD; code_simp)

lemma lower_Ai_SPAM_deal:
  "lowers_ascii f \<Longrightarrow> f (code_units ''Ai SPAM deal'') = code_units ''ai spam deal''"
  by (erule lowers_asciiD; code_simp)

lemma lower_New_breakthrough:
  "lowers_ascii f \<Longrightarrow> f (code_units ''New breakthrough'') = code_units ''new breakthrough''"
  by (erule lowers_asciiD; code_simp)

lemma includes_a1: "str_includes (code_units ''new ai breakthrough'') (code_units ''ai'')"
  by code_simp

lemma includes_a2: "\<not> str_includes (code_units ''new ai breakthrough'') (code_units ''spam'')"
  by code_simp

lemma includes_b1: "str_includes (code_units ''ai spam deal'') (code_units ''ai'')"
  by code_simp

lemma includes_b2: "str_includes (code_units ''ai spam deal'') (code_units ''spam'')"
  by code_simp

lemma includes_c1: "\<not> str_includes (code_units ''new breakthrough'') (code_units ''ai'')"
  by code_simp

text \<open>
  Letters beyond ASCII are matched as \<^verbatim>\<open>toLowerCase\<close> maps them: with a function that
  lowers the capital E with acute accent (201) to the small one (233), the keyword
  of the code units 201, C, O, L, E matches a text that starts with 233, c, o, l, e.
\<close>

lemma matchesKeywords_beyond_ascii:
  "matchesKeywords ex_toLowerCase
     ((ex_subscription 0 23)\<lparr>sub_keywords := [201 # code_units ''COLE'']\<rparr>)
     (233 # code_units ''cole normale'')"
  by code_simp

subsection \<open>What each lifecycle method leaves alone\<close>

lemma markAsStarted_retry [simp]:
  "pr_pushConfig (markAsStarted now r) = pr_pushConfig r"
  "retryHistory (markAsStarted now r) = retryHistory r"
  by (simp_all add: markAsStarted_def Let_def split: option.splits)

lemma markAsSuccess_retry [simp]:
  "pr_pushConfig (markAsSuccess now m rt raw r) = pr_pushConfig r"
  "retryHistory (markAsSuccess now m rt raw r) = retryHistory r"
  by (simp_all add: markAsSuccess_def Let_def split: option.splits)

lemma markAsFailed_retry [simp]:
  "pr_pushConfig (markAsFailed now c m raw r) = pr_pushConfig r"
  "retryHistory (markAsFailed now c m raw r) = retryHistory r"
  by (simp_all add: markAsFailed_def Let_def split: option.splits)

lemma markAsFailed_status [simp]: "status (markAsFailed now c m raw r) = Failed"
  by (simp add: markAsFailed_def Let_def split: option.splits)

lemma updateInteraction_retry [simp]:
  "pr_pushConfig (updateInteraction now ty fb r) = pr_pushConfig r"
  "retryHistory (updateInteraction now ty fb r) = retryHistory r"
  by (simp_all add: updateInteraction_def)

lemma addRetryAttempt_fields [simp]:
  "retryCount (pr_pushConfig (addRetryAttempt now e d r)) = retryCount (pr_pushConfig r) + 1"
  "maxRetries (pr_pushConfig (addRetryAttempt now e d r)) = maxRetries (pr_pushConfig r)"
  "retryDelay (pr_pushConfig (addRetryAttempt now e d r)) = retryDelay (pr_pushConfig r)"
  "status (addRetryAttempt now e d r) = status r"
  "retryHistory (addRetryAttempt now e d r) =
     retryHistory r @ [\<lparr>attempt = retryCount (pr_pushConfig r) + 1, timestamp = now,
                         error = e, retry_duration = d\<rparr>]"
  by (simp_all add: addRetryAttempt_def Let_def)

lemma getNextRetryTime_None_iff: "getNextRetryTime now rnd r = None \<longleftrightarrow> \<not> canRetry r"
  by (simp add: getNextRetryTime_def Let_def)

lemma retryInv_apply_call: "retryInv r \<Longrightarrow> retryInv (apply_call c r)"
  by (cases c) (simp_all add: retryInv_def)

lemma retryInv_run_calls: "retryInv r \<Longrightarrow> retryInv (run_calls cs r)"
  unfolding run_calls_def
  by (induction cs arbitrary: r) (simp_all add: retryInv_apply_call)

section \<open>The claims\<close>

text \<open>
  C2. For every subscription and every text, \<^verbatim>\<open>matchesKeywords\<close> is true exactly when
  the lower-cased text contains at least one lower-cased required keyword as a
  substring and contains no lower-cased exclude keyword, whatever \<^verbatim>\<open>toLowerCase\<close>
  does to a string. Since \<^verbatim>\<open>toLowerCase\<close> lowers ASCII, with the keywords \<^verbatim>\<open>["AI"]\<close>
  and the exclude keywords \<^verbatim>\<open>["spam"]\<close> the text "New AI breakthrough" matches and
  the text "AI spam deal" does not; the case of the letters does not matter: "new ai
  breakthrough" matches, "Ai SPAM deal" does not, and the keywords \<^verbatim>\<open>["ai"]\<close> with the
  exclude keywords \<^verbatim>\<open>["SPAM"]\<close> give the same results.
\<close>

theorem C2_matchesKeywords:
  "(matchesKeywords toLowerCase s txt \<longleftrightarrow>
      (\<exists>k \<in> set (sub_keywords s). contains (toLowerCase txt) (toLowerCase k))
      \<and> \<not> (\<exists>k \<in> set (excludeKeywords (sub_filters s)).
              contains (toLowerCase txt) (toLowerCase k)))
   \<and> (lowers_ascii toLowerCase
        \<and> sub_keywords s1 = [code_units ''AI'']
        \<and> excludeKeywords (sub_filters s1) = [code_units ''spam'']
        \<longrightarrow> matchesKeywords toLowerCase s1 (code_units ''New AI breakthrough'')
            \<and> \<not> matchesKeywords toLowerCase s1 (code_units ''AI spam deal'')
            \<and> matchesKeywords toLowerCase s1 (code_units ''new ai breakthrough'')
            \<and> \<not> matchesKeywords toLowerCase s1 (code_units ''Ai SPAM deal'')
            \<and> \<not> matchesKeywords toLowerCase s1 (code_units ''New breakthrough''))
   \<and> (lowers_ascii toLowerCase
        \<and> sub_keywords s2 = [code_units ''ai'']
        \<and> excludeKeywords (sub_filters s2) = [code_units ''SPAM'']
        \<longrightarrow> matchesKeywords toLowerCase s2 (code_units ''New AI breakthrough'')
            \<and> \<not> matchesKeywords toLowerCase s2 (code_units ''AI spam deal''))"
proof (intro conjI impI)
  show "matchesKeywords toLowerCase s txt \<longleftrightarrow>
      (\<exists>k \<in> set (sub_keywords s). contains (toLowerCase txt) (toLowerCase k))
      \<and> \<not> (\<exists>k \<in> set (excludeKeywords (sub_filters s)).
              contains (toLowerCase txt) (toLowerCase k))"
    by (simp add: matchesKeywords_def Let_def list_ex_iff str_includes_iff)
next
  assume a: "lowers_ascii toLowerCase
        \<and> sub_keywords s1 = [code_units ''AI'']
        \<and> excludeKeywords (sub_filters s1) = [code_units ''spam'']"
  then have l: "lowers_ascii toLowerCase" by simp
  from a show "matchesKeywords toLowerCase s1 (code_units ''New AI breakthrough'')"
    by (simp add: matchesKeywords_def Let_def lower_AI [OF l] lower_spam [OF l]
        lower_New_AI_breakthrough [OF l] includes_a1 includes_a2)
  from a show "\<not> matchesKeywords toLowerCase s1 (code_units ''AI spam deal'')"
    by (simp add: matchesKeywords_def Let_def lower_AI [OF l] lower_spam [OF l]
        lower_AI_spam_deal [OF l] includes_b1 includes_b2)
  from a show "matchesKeywords toLowerCase s1 (code_units ''new ai breakthrough'')"
    by (simp add: matchesKeywords_def Let_def lower_AI [OF l] lower_spam [OF l]
        lower_new_ai_breakthrough [OF l] includes_a1 includes_a2)
  from a show "\<not> matchesKeywords toLowerCase s1 (code_units ''Ai SPAM deal'')"
    by (simp add: matchesKeywords_def Let_def lower_AI [OF l] lower_spam [OF l]
        lower_Ai_SPAM_deal [OF l] includes_b1 includes_b2)
  from a show "\<not> matchesKeywords toLowerCase s1 (code_units ''New breakthrough'')"
    by (simp add: matchesKeywords_def Let_def lower_AI [OF l] lower_spam [OF l]
        lower_New_breakthrough [OF l] includes_c1)
next
  assume a: "lowers_ascii toLowerCase
        \<and> sub_keywords s2 = [code_units ''ai'']
        \<and> excludeKeywords (sub_filters s2) = [code_units ''SPAM'']"
  then have l: "lowers_ascii toLowerCase" by simp
  from a show "matchesKeywords toLowerCase s2 (code_units ''New AI breakthrough'')"
    by (simp add: matchesKeywords_def Let_def lower_ai [OF l] lower_SPAM [OF l]
        lower_New_AI_breakthrough [OF l] includes_a1 includes_a2)
  from a show "\<not> matchesKeywords toLowerCase s2 (code_units ''AI spam deal'')"
    by (simp add: matchesKeywords_def Let_def lower_ai [OF l] lower_SPAM [OF l]
        lower_AI_spam_deal [OF l] includes_b1 includes_b2)
qed

theorem C2_matchesKeywords_witness:
  "lowers_ascii ex_toLowerCase
   \<and> matchesKeywords ex_toLowerCase (ex_subscription 22 6) (code_units ''New AI breakthrough'')
   \<and> (\<exists>k \<in> set (sub_keywords (ex_subscription 22 6)).
         contains (ex_toLowerCase (code_units ''New AI breakthrough'')) (ex_toLowerCase k))
   \<and> matchesKeywords ex_toLowerCase (ex_subscription 22 6) (code_units ''new ai breakthrough'')
   \<and> \<not> matchesKeywords ex_toLowerCase (ex_subscription 22 6) (code_units ''Ai SPAM deal'')
   \<and> ex_toLowerCase (code_units ''Ai SPAM deal'') = code_units ''ai spam deal''"
proof -
  have k: "sub_keywords (ex_subscription 22 6) = [code_units ''AI'']
           \<and> excludeKeywords (sub_filters (ex_subscription 22 6)) = [code_units ''spam'']"
    by (simp add: ex_subscription_def)
  have e: "ex_toLowerCase (code_units ''Ai SPAM deal'') = code_units ''ai spam deal''"
    by code_simp
  from k e lowers_ascii_ex_toLowerCase C2_matchesKeywords
    [of ex_toLowerCase "ex_subscription 22 6" "code_units ''New AI breakthrough''"
      "ex_subscription 22 6" "ex_subscription 22 6"]
  show ?thesis by blast
qed

text \<open>
  C3. With active hours \<open>start \<le> end\<close>, \<^verbatim>\<open>isInActiveHours\<close> is true exactly when
  \<open>start \<le> hour \<le> end\<close>; with \<open>start > end\<close> (a window over midnight) exactly when
  \<open>hour \<ge> start\<close> or \<open>hour \<le> end\<close>. With start 22 and end 6 it is true at the hours
  23 and 3 and false at 10; with start 9 and end 17 it is false at 8, true at 9 and
  17, and false at 18.
\<close>

theorem C3_isInActiveHours:
  "(activeHours_start (pushSettings_activeHours (sub_pushSettings s))
      \<le> activeHours_end (pushSettings_activeHours (sub_pushSettings s)) \<longrightarrow>
      (isInActiveHours h s \<longleftrightarrow>
         activeHours_start (pushSettings_activeHours (sub_pushSettings s)) \<le> real h
         \<and> real h \<le> activeHours_end (pushSettings_activeHours (sub_pushSettings s))))
   \<and> (activeHours_start (pushSettings_activeHours (sub_pushSettings s))
        > activeHours_end (pushSettings_activeHours (sub_pushSettings s)) \<longrightarrow>
      (isInActiveHours h s \<longleftrightarrow>
         real h \<ge> activeHours_start (pushSettings_activeHours (sub_pushSettings s))
         \<or> real h \<le> activeHours_end (pushSettings_activeHours (sub_pushSettings s))))
   \<and> (pushSettings_activeHours (sub_pushSettings s1)
         = \<lparr>activeHours_start = 22, activeHours_end = 6\<rparr> \<longrightarrow>
        isInActiveHours 23 s1 \<and> isInActiveHours 3 s1 \<and> \<not> isInActiveHours 10 s1)
   \<and> (pushSettings_activeHours (sub_pushSettings s2)
         = \<lparr>activeHours_start = 9, activeHours_end = 17\<rparr> \<longrightarrow>
        \<not> isInActiveHours 8 s2 \<and> isInActiveHours 9 s2 \<and> isInActiveHours 17 s2
        \<and> \<not> isInActiveHours 18 s2)"
  by (simp add: isInActiveHours_def Let_def)

theorem C3_isInActiveHours_witness:
  "activeHours_start (pushSettings_activeHours (sub_pushSettings (ex_subscription 9 17)))
     \<le> activeHours_end (pushSettings_activeHours (sub_pushSettings (ex_subscription 9 17)))
   \<and> isInActiveHours 12 (ex_subscription 9 17)
   \<and> \<not> isInActiveHours 8 (ex_subscription 9 17)
   \<and> isInActiveHours 17 (ex_subscription 9 17)
   \<and> activeHours_start (pushSettings_activeHours (sub_pushSettings (ex_subscription 22 6)))
     > activeHours_end (pushSettings_activeHours (sub_pushSettings (ex_subscription 22 6)))
   \<and> isInActiveHours 2 (ex_subscription 22 6)
   \<and> isInActiveHours 23 (ex_subscription 22 6)
   \<and> \<not> isInActiveHours 10 (ex_subscription 22 6)"
proof -
  have d: "pushSettings_activeHours (sub_pushSettings (ex_subscription 9 17))
             = \<lparr>activeHours_start = 9, activeHours_end = 17\<rparr>"
    and n: "pushSettings_activeHours (sub_pushSettings (ex_subscription 22 6))
             = \<lparr>activeHours_start = 22, activeHours_end = 6\<rparr>"
    by (simp_all add: ex_subscription_def)
  from C3_isInActiveHours [of "ex_subscription 9 17" 12 "ex_subscription 22 6"
      "ex_subscription 9 17"]
    C3_isInActiveHours [of "ex_subscription 22 6" 2 "ex_subscription 22 6"
      "ex_subscription 9 17"]
  show ?thesis by (simp add: d n)
qed

text \<open>
  C4, as the code has it. \<^verbatim>\<open>markAsSuccess\<close> does not look at the status: called on a
  record that a first call has already put in the state \<^verbatim>\<open>success\<close>, it sets the
  status to \<^verbatim>\<open>success\<close> again and overwrites \<^verbatim>\<open>timing.completedAt\<close> and
  \<^verbatim>\<open>result.deliveryTime\<close> with the time of the second call.
\<close>

theorem C4_markAsSuccess_overwrites:
  "completedAt (pr_timing (markAsSuccess t2 m2 rt2 raw2 (markAsSuccess t1 m1 rt1 raw1 r)))
     = Some t2
   \<and> deliveryTime (pr_result (markAsSuccess t2 m2 rt2 raw2 (markAsSuccess t1 m1 rt1 raw1 r)))
     = Some t2
   \<and> status (markAsSuccess t2 m2 rt2 raw2 (markAsSuccess t1 m1 rt1 raw1 r)) = Success"
  by (simp add: markAsSuccess_def Let_def split: option.splits)

text \<open>
  C4 as stated fails: a new record marked successful at time 1000 is in the state
  \<^verbatim>\<open>success\<close> with \<^verbatim>\<open>completedAt\<close> 1000; a second call at time 2000 leaves
  \<^verbatim>\<open>completedAt\<close> at 2000, not at the value of the first call.
\<close>

theorem C4_second_markAsSuccess_counterexample:
  "status (markAsSuccess 1000 ''m1'' 0 None newPushRecord) = Success
   \<and> completedAt (pr_timing (markAsSuccess 1000 ''m1'' 0 None newPushRecord)) = Some 1000
   \<and> completedAt (pr_timing (markAsSuccess 2000 ''m2'' 0 None
         (markAsSuccess 1000 ''m1'' 0 None newPushRecord)))
       \<noteq> completedAt (pr_timing (markAsSuccess 1000 ''m1'' 0 None newPushRecord))"
  by (simp add: markAsSuccess_def newPushRecord_def Let_def)

text \<open>
  C6. \<^verbatim>\<open>canRetry()\<close> is true exactly when the status is \<^verbatim>\<open>failed\<close> and
  \<open>retryCount < maxRetries\<close>. For a record with \<open>maxRetries = 3\<close> whose retry count has
  not gone below zero, after three cycles of \<^verbatim>\<open>markAsFailed\<close> and \<^verbatim>\<open>addRetryAttempt\<close>,
  whatever their arguments, \<^verbatim>\<open>canRetry()\<close> is false and \<^verbatim>\<open>getNextRetryTime()\<close> is
  \<^verbatim>\<open>null\<close>.
\<close>

theorem C6_canRetry:
  "(canRetry r \<longleftrightarrow>
      status r = Failed \<and> retryCount (pr_pushConfig r) < maxRetries (pr_pushConfig r))
   \<and> (maxRetries (pr_pushConfig r) = 3 \<and> 0 \<le> retryCount (pr_pushConfig r) \<longrightarrow>
        \<not> canRetry (run_calls (retry_cycle t1 c1 m1 w1 u1 e1 d1
                                 @ retry_cycle t2 c2 m2 w2 u2 e2 d2
                                 @ retry_cycle t3 c3 m3 w3 u3 e3 d3) r)
        \<and> getNextRetryTime now rnd
             (run_calls (retry_cycle t1 c1 m1 w1 u1 e1 d1
                         @ retry_cycle t2 c2 m2 w2 u2 e2 d2
                         @ retry_cycle t3 c3 m3 w3 u3 e3 d3) r) = None)"
  by (auto simp add: canRetry_def getNextRetryTime_def run_calls_def retry_cycle_def)

theorem C6_canRetry_witness:
  "maxRetries (pr_pushConfig newPushRecord) = 3
   \<and> 0 \<le> retryCount (pr_pushConfig newPushRecord)
   \<and> canRetry (run_calls (retry_cycle 10 ''E'' ''timeout'' None 11 ''timeout'' 1
                           @ retry_cycle 20 ''E'' ''timeout'' None 21 ''timeout'' 1)
                 newPushRecord)
   \<and> \<not> canRetry (run_calls (retry_cycle 10 ''E'' ''timeout'' None 11 ''timeout'' 1
                             @ retry_cycle 20 ''E'' ''timeout'' None 21 ''timeout'' 1
                             @ retry_cycle 30 ''E'' ''timeout'' None 31 ''timeout'' 1)
                   newPushRecord)
   \<and> getNextRetryTime 40 (1 / 2)
        (run_calls (retry_cycle 10 ''E'' ''timeout'' None 11 ''timeout'' 1
                    @ retry_cycle 20 ''E'' ''timeout'' None 21 ''timeout'' 1
                    @ retry_cycle 30 ''E'' ''timeout'' None 31 ''timeout'' 1)
          newPushRecord) = None"
proof -
  have m: "maxRetries (pr_pushConfig newPushRecord) = 3
           \<and> 0 \<le> retryCount (pr_pushConfig newPushRecord)"
    by (simp add: newPushRecord_def)
  have two: "canRetry (run_calls (retry_cycle 10 ''E'' ''timeout'' None 11 ''timeout'' 1
                           @ retry_cycle 20 ''E'' ''timeout'' None 21 ''timeout'' 1)
                 newPushRecord)"
    by (simp add: canRetry_def run_calls_def retry_cycle_def)
      (simp add: newPushRecord_def)
  from m two C6_canRetry [of newPushRecord 10 "''E''" "''timeout''" None 11 "''timeout''" 1
      20 "''E''" "''timeout''" None 21 "''timeout''" 1
      30 "''E''" "''timeout''" None 31 "''timeout''" 1 40 "1 / 2"]
  show ?thesis by blast
qed

text \<open>
  C7, as the code has it. For every item whose engagement counters and follower count
  are not negative, the score is not negative, and it does not increase with age:
  the same item evaluated at a later time has a score that is less or equal. The
  score is rounded to a whole number, so it need not get strictly smaller.
\<close>

theorem C7_score_nonneg_nonincreasing:
  assumes "nonneg_counts t"
  shows "0 \<le> fst (calculateHotnessScore now t)
         \<and> (now1 \<le> now2 \<longrightarrow>
              ageInHours now1 t \<le> ageInHours now2 t
              \<and> fst (calculateHotnessScore now2 t) \<le> fst (calculateHotnessScore now1 t))"
proof (intro conjI impI)
  have "0 \<le> decay (ageInHours now t)" by (simp add: decay_def)
  with weight_nonneg [OF assms]
  have "0 \<le> base t * influence t * verifiedMultiplier t * decay (ageInHours now t)"
    by (rule mult_nonneg_nonneg)
  then show "0 \<le> fst (calculateHotnessScore now t)"
    unfolding hotness_value by (rule Math_round_nonneg)
next
  assume "now1 \<le> now2"
  then show "ageInHours now1 t \<le> ageInHours now2 t" by (rule ageInHours_mono)
next
  assume "now1 \<le> now2"
  with assms show "fst (calculateHotnessScore now2 t) \<le> fst (calculateHotnessScore now1 t)"
    by (rule score_antimono)
qed

theorem C7_score_nonneg_nonincreasing_witness:
  "nonneg_counts (ex_tweet 100 0)
   \<and> 0 \<le> fst (calculateHotnessScore 0 (ex_tweet 100 0))
   \<and> (0::real) \<le> 3600000
   \<and> fst (calculateHotnessScore 3600000 (ex_tweet 100 0))
       \<le> fst (calculateHotnessScore 0 (ex_tweet 100 0))"
proof -
  have n: "nonneg_counts (ex_tweet 100 0)" by (simp add: nonneg_counts_def ex_tweet_def)
  from n C7_score_nonneg_nonincreasing [OF n, of 0 0 3600000] show ?thesis by simp
qed

text \<open>
  C7 as stated fails: an item with one like has the score 1 at the age of 0 hours and
  still the score 1 at the age of 1 hour, since \<open>exp (- 1 / 24)\<close> rounds to 1. The
  schema puts no lower bound on the counters, and a counter below zero gives a score
  below zero.
\<close>

theorem C7_strictly_decreasing_counterexample:
  "ageInHours 0 (ex_tweet 1 0) < ageInHours 3600000 (ex_tweet 1 0)
   \<and> \<not> fst (calculateHotnessScore 3600000 (ex_tweet 1 0))
         < fst (calculateHotnessScore 0 (ex_tweet 1 0))
   \<and> fst (calculateHotnessScore 0 (ex_tweet (- 10) 0)) < 0"
proof (intro conjI)
  show "ageInHours 0 (ex_tweet 1 0) < ageInHours 3600000 (ex_tweet 1 0)"
    by (simp add: ageInHours_def ex_tweet_def)
  have s0: "fst (calculateHotnessScore 0 (ex_tweet 1 0)) = 1"
    by (simp add: ex_tweet_score Math_round_def)
  have lo: "1 + (- (1 / 24)) \<le> exp (- (1 / 24) :: real)" by (rule exp_ge_add_one_self)
  have hi: "exp (- (1 / 24) :: real) + 1 / 2 < 2"
    using exp_le_one_iff [of "- (1 / 24) :: real"] by linarith
  have "\<lfloor>exp (- (1 / 24) :: real) + 1 / 2\<rfloor> = 1"
    using lo hi by (simp add: floor_eq_iff)
  then have s1: "fst (calculateHotnessScore 3600000 (ex_tweet 1 0)) = 1"
    by (simp add: ex_tweet_score Math_round_def)
  show "\<not> fst (calculateHotnessScore 3600000 (ex_tweet 1 0))
         < fst (calculateHotnessScore 0 (ex_tweet 1 0))"
    by (simp add: s0 s1)
  have "\<lfloor>- 10 + 1 / 2 :: real\<rfloor> = - 10" by (simp add: floor_eq_iff)
  then show "fst (calculateHotnessScore 0 (ex_tweet (- 10) 0)) < 0"
    by (simp add: ex_tweet_score Math_round_def)
qed

text \<open>
  C8, on the code. \<^verbatim>\<open>matchesFilters\<close> never reads \<^verbatim>\<open>filters.languages\<close>: a
  subscription that allows Chinese only accepts an English tweet that passes the
  engagement, media and link checks.
\<close>

theorem C8_matchesFilters_ignores_languages:
  "languages (sub_filters (ex_subscription 0 23)) \<noteq> []
   \<and> lang (tweet_metadata (ex_tweet 100 0)) \<notin> set (languages (sub_filters (ex_subscription 0 23)))
   \<and> matchesFilters (ex_subscription 0 23) (ex_tweet 100 0)"
  by (simp add: matchesFilters_def ex_subscription_def ex_tweet_def Let_def
      tweet_hasMedia_def tweet_hasLinks_def)




text \<open>
  C10. The retry count equals the length of the retry history in a new record and
  after every lifecycle method, hence after every sequence of them:
  \<^verbatim>\<open>addRetryAttempt\<close> adds one to the count and appends one entry whose attempt number
  is the new count; \<^verbatim>\<open>markAsStarted\<close>, \<^verbatim>\<open>markAsSuccess\<close>, \<^verbatim>\<open>markAsFailed\<close> and
  \<^verbatim>\<open>updateInteraction\<close> change neither the push configuration, which holds the count,
  nor the history.
\<close>

theorem C10_retry_invariant:
  "retryInv newPushRecord
   \<and> (retryInv r \<longrightarrow> retryInv (apply_call c r))
   \<and> (retryInv r \<longrightarrow> retryInv (run_calls cs r))
   \<and> retryCount (pr_pushConfig (addRetryAttempt now e d r)) = retryCount (pr_pushConfig r) + 1
   \<and> retryHistory (addRetryAttempt now e d r) =
        retryHistory r @
          [\<lparr>attempt = retryCount (pr_pushConfig (addRetryAttempt now e d r)),
            timestamp = now, error = e, retry_duration = d\<rparr>]
   \<and> pr_pushConfig (markAsStarted now r) = pr_pushConfig r
   \<and> retryHistory (markAsStarted now r) = retryHistory r
   \<and> pr_pushConfig (markAsSuccess now m rt raw r) = pr_pushConfig r
   \<and> retryHistory (markAsSuccess now m rt raw r) = retryHistory r
   \<and> pr_pushConfig (markAsFailed now ec em raw r) = pr_pushConfig r
   \<and> retryHistory (markAsFailed now ec em raw r) = retryHistory r
   \<and> pr_pushConfig (updateInteraction now ty fb r) = pr_pushConfig r
   \<and> retryHistory (updateInteraction now ty fb r) = retryHistory r"
  by (simp add: retryInv_apply_call retryInv_run_calls) (simp add: retryInv_def newPushRecord_def)

theorem C10_retry_invariant_witness:
  "retryInv newPushRecord
   \<and> retryInv (apply_call (AddRetryAttempt 5 ''timeout'' 12) newPushRecord)
   \<and> retryInv (run_calls [MarkAsStarted 1, MarkAsFailed 2 ''E'' ''timeout'' None,
                          AddRetryAttempt 3 ''timeout'' 1, UpdateInteraction 4 ''read'' None]
                 newPushRecord)
   \<and> retryCount (pr_pushConfig (run_calls [MarkAsStarted 1, MarkAsFailed 2 ''E'' ''timeout'' None,
                          AddRetryAttempt 3 ''timeout'' 1, UpdateInteraction 4 ''read'' None]
                 newPushRecord)) = 1"
proof -
  have i: "retryInv newPushRecord" by (simp add: retryInv_def newPushRecord_def)
  have c: "retryCount (pr_pushConfig (run_calls [MarkAsStarted 1,
              MarkAsFailed 2 ''E'' ''timeout'' None, AddRetryAttempt 3 ''timeout'' 1,
              UpdateInteraction 4 ''read'' None] newPushRecord)) = 1"
    by (simp add: run_calls_def) (simp add: newPushRecord_def)
  from i c C10_retry_invariant [of newPushRecord "AddRetryAttempt 5 ''timeout'' 12"
      "[MarkAsStarted 1, MarkAsFailed 2 ''E'' ''timeout'' None,
        AddRetryAttempt 3 ''timeout'' 1, UpdateInteraction 4 ''read'' None]"]
  show ?thesis by blast
qed

end
